theory Spec2Isabelle
  imports Main "HOL-Library.Word"
begin

section \<open>JavaScript values\<close>

text \<open>
  A JavaScript string is a sequence of 16-bit code units; the regular expression of
  \<open>cleanInput\<close> (no \<open>u\<close> flag) and \<open>slice\<close> both work on code units.
\<close>

type_synonym jsstring = "16 word list"

text \<open>
  The values a request body can hold after \<open>express.json()\<close>, plus \<open>undefined\<close>
  (what reading a missing property gives). Numbers are IEEE doubles in the program; the
  gateway never computes with a payload number, so their type is a parameter \<open>'n\<close>.
  An object is the list of its own properties, with distinct keys, in the order JavaScript
  enumerates them (integer keys first, then the other keys as they were inserted).
\<close>

datatype 'n jsval =
    JUndefined
  | JNull
  | JBool bool
  | JNum 'n
  | JStr jsstring
  | JArr "'n jsval list"
  | JObj "(jsstring \<times> 'n jsval) list"

definition ascii :: "string \<Rightarrow> jsstring" where
  "ascii s = map (\<lambda>c. of_nat (of_char c)) s"

section \<open>Input sanitization\<close>

text \<open>The character class \<open>[\u0000-\u001F\u007F-\u009F]\<close>.\<close>

definition is_control :: "16 word \<Rightarrow> bool" where
  "is_control c \<longleftrightarrow> c \<le> 0x1F \<or> (0x7F \<le> c \<and> c \<le> 0x9F)"

text \<open>\<open>str.replace(/[\u0000-\u001F\u007F-\u009F]/g, "")\<close>: every match is one code unit.\<close>

definition strip_control :: "jsstring \<Rightarrow> jsstring" where
  "strip_control s = filter (\<lambda>c. \<not> is_control c) s"

text \<open>\<open>s.slice(0, n)\<close> for a non-negative \<open>n\<close>.\<close>

definition slice0 :: "nat \<Rightarrow> jsstring \<Rightarrow> jsstring" where
  "slice0 n s = take n s"

text \<open>
  \<^verbatim>\<open>
  const cleanInput = (str) => {
    if (typeof str !== 'string') return '';
    return str.replace(/[\u0000-\u001F\u007F-\u009F]/g, "").slice(0, 5000);
  };
  \<close>
\<close>

fun cleanInput :: "'n jsval \<Rightarrow> jsstring" where
  "cleanInput (JStr str) = slice0 5000 (strip_control str)"
| "cleanInput _ = []"

text \<open>
  The sanitized payload of the specification: \<open>cleanInput\<close> applied to every string inside
  a value, through arrays and objects. The source has no such function (each prompt calls
  \<open>cleanInput\<close> on the fields it reads); it is used below to say which prompts see
  sanitized strings only.
\<close>

fun sanitize :: "'n jsval \<Rightarrow> 'n jsval" where
  "sanitize (JStr s) = JStr (cleanInput (JStr s :: 'n jsval))"
| "sanitize (JArr xs) = JArr (map sanitize xs)"
| "sanitize (JObj ps) = JObj (map (\<lambda>(k, v). (k, sanitize v)) ps)"
| "sanitize v = v"

section \<open>Property access and JSON text\<close>

datatype exn = TypeError | SyntaxError | BackendError

text \<open>
  \<open>v.k\<close> for a key \<open>k\<close> that no prototype defines (the registry reads only
  \<open>productName\<close>, \<open>description\<close>, \<open>niche\<close>, \<open>refinement\<close>, \<open>persona\<close>, \<open>location\<close>,
  \<open>jobTitle\<close>, \<open>url\<close>, \<open>seed\<close>, \<open>history\<close>, \<open>topic\<close>, \<open>goal\<close>, \<open>objection\<close>,
  \<open>keyword\<close> and \<open>content\<close>): reading a property of \<open>undefined\<close> or \<open>null\<close> throws a
  TypeError, an object gives its own property or \<open>undefined\<close>, every other value gives
  \<open>undefined\<close>.
\<close>

fun get_prop :: "'n jsval \<Rightarrow> jsstring \<Rightarrow> exn + 'n jsval" where
  "get_prop JUndefined k = Inl TypeError"
| "get_prop JNull k = Inl TypeError"
| "get_prop (JObj ps) k = Inr (case map_of ps k of None \<Rightarrow> JUndefined | Some v \<Rightarrow> v)"
| "get_prop _ k = Inr JUndefined"

text \<open>\<open>d.k1.k2...\<close>, left to right.\<close>

fun path :: "'n jsval \<Rightarrow> string list \<Rightarrow> exn + 'n jsval" where
  "path d [] = Inr d"
| "path d (k # ks) = (case get_prop d (ascii k) of Inl e \<Rightarrow> Inl e | Inr v \<Rightarrow> path v ks)"

text \<open>
  An expression \<open>obj[key]\<close> on an object literal with a string key: an own property, else a
  property inherited from \<open>Object.prototype\<close> (a function, or the prototype object itself
  for \<open>__proto__\<close>; all of them truthy and none of them a number), else \<open>undefined\<close>.
\<close>

datatype 'a js_lookup = Own 'a | Inherited | Missing

definition object_prototype_keys :: "jsstring list" where
  "object_prototype_keys = map ascii
     [''constructor'', ''__defineGetter__'', ''__defineSetter__'', ''hasOwnProperty'',
      ''__lookupGetter__'', ''__lookupSetter__'', ''isPrototypeOf'', ''propertyIsEnumerable'',
      ''toString'', ''valueOf'', ''__proto__'', ''toLocaleString'']"

definition js_get :: "(jsstring \<times> 'a) list \<Rightarrow> jsstring \<Rightarrow> 'a js_lookup" where
  "js_get obj k =
     (case map_of obj k of
        Some v \<Rightarrow> Own v
      | None \<Rightarrow> if k \<in> set object_prototype_keys then Inherited else Missing)"

text \<open>\<open>JSON.stringify\<close>: the quoting of a string (QuoteJSONString of ECMA-262).\<close>

definition is_lead :: "16 word \<Rightarrow> bool" where
  "is_lead c \<longleftrightarrow> 0xD800 \<le> c \<and> c \<le> 0xDBFF"

definition is_trail :: "16 word \<Rightarrow> bool" where
  "is_trail c \<longleftrightarrow> 0xDC00 \<le> c \<and> c \<le> 0xDFFF"

definition hex_digit :: "nat \<Rightarrow> 16 word" where
  "hex_digit n = (if n < 10 then of_nat (0x30 + n) else of_nat (0x61 + (n - 10)))"

definition unicode_escape :: "16 word \<Rightarrow> jsstring" where
  "unicode_escape c =
     [0x5C, 0x75, hex_digit (unat c div 4096 mod 16), hex_digit (unat c div 256 mod 16),
      hex_digit (unat c div 16 mod 16), hex_digit (unat c mod 16)]"

definition escape_unit :: "16 word \<Rightarrow> jsstring" where
  "escape_unit c =
     (if c = 0x08 then [0x5C, 0x62]
      else if c = 0x09 then [0x5C, 0x74]
      else if c = 0x0A then [0x5C, 0x6E]
      else if c = 0x0C then [0x5C, 0x66]
      else if c = 0x0D then [0x5C, 0x72]
      else if c = 0x22 then [0x5C, 0x22]
      else if c = 0x5C then [0x5C, 0x5C]
      else if c < 0x20 \<or> is_lead c \<or> is_trail c then unicode_escape c
      else [c])"

text \<open>A surrogate pair is copied; a lone surrogate is escaped.\<close>

fun quote_units :: "jsstring \<Rightarrow> jsstring" where
  "quote_units [] = []"
| "quote_units [c] = escape_unit c"
| "quote_units (c # d # ds) =
     (if is_lead c \<and> is_trail d then c # d # quote_units ds
      else escape_unit c @ quote_units (d # ds))"

definition QuoteJSONString :: "jsstring \<Rightarrow> jsstring" where
  "QuoteJSONString s = [0x22] @ quote_units s @ [0x22]"

fun join_comma :: "jsstring list \<Rightarrow> jsstring" where
  "join_comma [] = []"
| "join_comma [s] = s"
| "join_comma (s # t # ts) = s @ [0x2C] @ join_comma (t # ts)"

text \<open>
  \<open>JSON.stringify(v)\<close> without indentation; \<open>None\<close> is the result \<open>undefined\<close>. The
  parameter gives the text of a number. In an array \<open>undefined\<close> prints as \<open>null\<close>; in an
  object a property whose value is \<open>undefined\<close> is left out. The properties of an object
  are taken in the order of its list.
\<close>

fun JSON_stringify :: "('n \<Rightarrow> jsstring) \<Rightarrow> 'n jsval \<Rightarrow> jsstring option" where
  "JSON_stringify num JUndefined = None"
| "JSON_stringify num JNull = Some (ascii ''null'')"
| "JSON_stringify num (JBool b) = Some (ascii (if b then ''true'' else ''false''))"
| "JSON_stringify num (JNum n) = Some (num n)"
| "JSON_stringify num (JStr s) = Some (QuoteJSONString s)"
| "JSON_stringify num (JArr xs) =
     Some (ascii ''['' @
       join_comma (map (\<lambda>x. case JSON_stringify num x of
                               None \<Rightarrow> ascii ''null''
                             | Some t \<Rightarrow> t) xs) @
       ascii '']'')"
| "JSON_stringify num (JObj ps) =
     Some (ascii ''{'' @
       join_comma (concat (map (\<lambda>(k, v). case JSON_stringify num v of
                                        None \<Rightarrow> []
                                      | Some t \<Rightarrow> [QuoteJSONString k @ ascii '':'' @ t]) ps)) @
       ascii ''}'')"

text \<open>
  The key of \<open>obj[v]\<close> for a value \<open>v\<close> of a request body (ToPropertyKey, which on these
  values is ToString): a string is its own key; an array is the texts of its elements
  joined by commas, with \<open>null\<close> and \<open>undefined\<close> elements giving the empty text; an object
  is \<open>[object Object]\<close>, unless it has an own property \<open>toString\<close>, which hides
  \<open>Object.prototype.toString\<close> and is not callable, so that the conversion throws a
  TypeError. The parameter is \<open>Number::toString\<close>.
\<close>

fun join_parts :: "(exn + jsstring) list \<Rightarrow> exn + jsstring" where
  "join_parts [] = Inr []"
| "join_parts [p] = p"
| "join_parts (Inl e # q # ps) = Inl e"
| "join_parts (Inr s # q # ps) =
     (case join_parts (q # ps) of Inl e \<Rightarrow> Inl e | Inr t \<Rightarrow> Inr (s @ [0x2C] @ t))"

fun ToPropertyKey :: "('n \<Rightarrow> jsstring) \<Rightarrow> 'n jsval \<Rightarrow> exn + jsstring" where
  "ToPropertyKey num JUndefined = Inr (ascii ''undefined'')"
| "ToPropertyKey num JNull = Inr (ascii ''null'')"
| "ToPropertyKey num (JBool b) = Inr (ascii (if b then ''true'' else ''false''))"
| "ToPropertyKey num (JNum n) = Inr (num n)"
| "ToPropertyKey num (JStr s) = Inr s"
| "ToPropertyKey num (JArr xs) =
     join_parts (map (\<lambda>x. if x = JUndefined \<or> x = JNull then Inr [] else ToPropertyKey num x) xs)"
| "ToPropertyKey num (JObj ps) =
     (if map_of ps (ascii ''toString'') \<noteq> None then Inl TypeError
      else Inr (ascii ''[object Object]''))"

section \<open>The agent registry\<close>

text \<open>The schema descriptors of the table (\<open>Type.STRING\<close>, \<open>Type.ARRAY\<close> with \<open>items\<close>, ...).\<close>

datatype schema =
    TString
  | TInteger
  | TNumber
  | TArray schema
  | TObject "(string \<times> schema) list"

datatype tool = GoogleMaps | GoogleSearch

record 'n agent_config =
  model :: jsstring
  prompt :: "'n jsval \<Rightarrow> exn + jsstring"
  schema :: "schema option"
  tools :: "tool list option"

text \<open>
  A template literal: its parts are evaluated and concatenated left to right, and the first
  part that throws ends the evaluation.
\<close>

fun template :: "(exn + jsstring) list \<Rightarrow> exn + jsstring" where
  "template [] = Inr []"
| "template (Inl e # ps) = Inl e"
| "template (Inr s # ps) = (case template ps of Inl e \<Rightarrow> Inl e | Inr t \<Rightarrow> Inr (s @ t))"

definition lit :: "string \<Rightarrow> exn + jsstring" where
  "lit s = Inr (ascii s)"

text \<open>\<open>${cleanInput(d.k1.k2)}\<close>\<close>

definition clean :: "'n jsval \<Rightarrow> string list \<Rightarrow> exn + jsstring" where
  "clean d ks = (case path d ks of Inl e \<Rightarrow> Inl e | Inr v \<Rightarrow> Inr (cleanInput v))"

text \<open>\<open>s || 'None'\<close> on a string: the empty string is falsy.\<close>

definition or_None :: "exn + jsstring \<Rightarrow> exn + jsstring" where
  "or_None r = (case r of Inl e \<Rightarrow> Inl e | Inr s \<Rightarrow> Inr (if s = [] then ascii ''None'' else s))"

text \<open>\<open>s.slice(0,2000)\<close>\<close>

definition slice_2000 :: "exn + jsstring \<Rightarrow> exn + jsstring" where
  "slice_2000 r = (case r of Inl e \<Rightarrow> Inl e | Inr s \<Rightarrow> Inr (slice0 2000 s))"

text \<open>\<open>${JSON.stringify(d.k)}\<close>: the result \<open>undefined\<close> prints as \<open>undefined\<close>.\<close>

definition stringified :: "('n \<Rightarrow> jsstring) \<Rightarrow> 'n jsval \<Rightarrow> string list \<Rightarrow> exn + jsstring" where
  "stringified num d ks =
     (case path d ks of
        Inl e \<Rightarrow> Inl e
      | Inr v \<Rightarrow> Inr (case JSON_stringify num v of None \<Rightarrow> ascii ''undefined'' | Some t \<Rightarrow> t))"

definition gemini_flash :: jsstring where
  "gemini_flash = ascii ''gemini-2.5-flash''"

definition gemini_pro :: jsstring where
  "gemini_pro = ascii ''gemini-3-pro-preview''"

definition niche :: "'n agent_config" where
  \<open>niche = \<lparr>
     model = gemini_flash,
     prompt = (\<lambda>d. template
       [lit ''Analyze product: "'', clean d [''productName''], lit ''". Desc: '',
        clean d [''description''], lit ''. Identify 3 profitable niches. Return valid JSON.'']),
     schema = Some (TArray (TObject
       [(''name'', TString), (''profitabilityScore'', TInteger), (''reasoning'', TString),
        (''marketSizeEstimate'', TString)])),
     tools = None \<rparr>\<close>

definition persona :: "'n agent_config" where
  \<open>persona = \<lparr>
     model = gemini_pro,
     prompt = (\<lambda>d. template
       [lit ''Build ICP for "'', clean d [''productName''], lit ''" in niche "'',
        clean d [''niche''], lit ''". Refinement: '', or_None (clean d [''refinement'']),
        lit ''. Return JSON.'']),
     schema = Some (TObject
       [(''jobTitle'', TString), (''ageRange'', TString), (''psychographics'', TArray TString),
        (''painPoints'', TArray TString), (''goals'', TArray TString),
        (''buyingTriggers'', TArray TString)]),
     tools = None \<rparr>\<close>

definition magnets :: "'n agent_config" where
  \<open>magnets = \<lparr>
     model = gemini_flash,
     prompt = (\<lambda>d. template
       [lit ''3 Lead magnet ideas for '', clean d [''persona''], lit '' related to '',
        clean d [''productName''], lit ''. Return JSON.'']),
     schema = Some (TArray (TObject
       [(''title'', TString), (''type'', TString), (''hook'', TString),
        (''description'', TString)])),
     tools = None \<rparr>\<close>

definition maps_scout :: "'n agent_config" where
  \<open>maps_scout = \<lparr>
     model = gemini_flash,
     prompt = (\<lambda>d. template
       [lit ''Find 5 verified business leads for "'', clean d [''niche''], lit ''" in "'',
        clean d [''location''], lit ''".'']),
     schema = None,
     tools = Some [GoogleMaps] \<rparr>\<close>

definition social_search :: "'n agent_config" where
  \<open>social_search = \<lparr>
     model = gemini_flash,
     prompt = (\<lambda>d. template
       [lit ''Generate 3 Boolean Search Strings for '', clean d [''persona'', ''jobTitle''],
        lit '' in '', clean d [''niche''], lit ''. Return JSON.'']),
     schema = Some (TArray (TObject
       [(''platform'', TString), (''query'', TString), (''explanation'', TString),
        (''directUrl'', TString)])),
     tools = None \<rparr>\<close>

definition landing_page :: "'n agent_config" where
  \<open>landing_page = \<lparr>
     model = gemini_pro,
     prompt = (\<lambda>d. template
       [lit ''Write landing page copy for '', clean d [''productName''], lit ''. Target: '',
        clean d [''persona'', ''jobTitle''], lit ''. Return JSON.'']),
     schema = Some (TObject
       [(''headline'', TString), (''subheadline'', TString), (''ctaPrimary'', TString),
        (''ctaSecondary'', TString),
        (''benefits'', TArray (TObject [(''title'', TString), (''description'', TString)])),
        (''heroImagePrompt'', TString),
        (''socialProof'', TArray (TObject
           [(''name'', TString), (''quote'', TString), (''role'', TString)]))]),
     tools = None \<rparr>\<close>

definition ad_creatives :: "'n agent_config" where
  \<open>ad_creatives = \<lparr>
     model = gemini_flash,
     prompt = (\<lambda>d. template
       [lit ''Generate 3 ad creatives for '', clean d [''productName''], lit ''. Return JSON.'']),
     schema = Some (TArray (TObject
       [(''platform'', TString), (''headline'', TString), (''adCopy'', TString),
        (''hashtags'', TArray TString), (''visualPrompt'', TString)])),
     tools = None \<rparr>\<close>

definition seo_audit :: "'n agent_config" where
  \<open>seo_audit = \<lparr>
     model = gemini_flash,
     prompt = (\<lambda>d. template
       [lit ''Audit SEO for '', clean d [''url''],
        lit ''. Identify technical issues. Return JSON.'']),
     schema = Some (TArray (TObject
       [(''severity'', TString), (''category'', TString), (''issue'', TString),
        (''recommendation'', TString)])),
     tools = Some [GoogleSearch] \<rparr>\<close>

definition seo_keywords :: "'n agent_config" where
  \<open>seo_keywords = \<lparr>
     model = gemini_flash,
     prompt = (\<lambda>d. template
       [lit ''Keyword strategy for "'', clean d [''seed''], lit ''" niche "'',
        clean d [''niche''], lit ''". Return JSON.'']),
     schema = Some (TArray (TObject
       [(''keyword'', TString), (''intent'', TString), (''volume'', TString),
        (''difficulty'', TInteger), (''opportunityScore'', TInteger)])),
     tools = None \<rparr>\<close>

definition chat_reply :: "('n \<Rightarrow> jsstring) \<Rightarrow> 'n agent_config" where
  \<open>chat_reply num = \<lparr>
     model = gemini_flash,
     prompt = (\<lambda>d. template
       [lit ''Roleplay as '', clean d [''persona'', ''jobTitle''], lit ''. Product: '',
        clean d [''productName''], lit ''. History: '', stringified num d [''history''],
        lit ''. Reply short.'']),
     schema = None,
     tools = None \<rparr>\<close>

definition follow_up :: "'n agent_config" where
  \<open>follow_up = \<lparr>
     model = gemini_flash,
     prompt = (\<lambda>d. template
       [lit ''3 email sequence for '', clean d [''productName''], lit ''. Return JSON.'']),
     schema = Some (TArray (TObject
       [(''subject'', TString), (''previewText'', TString), (''body'', TString),
        (''sendDelay'', TString)])),
     tools = None \<rparr>\<close>

definition qualification :: "'n agent_config" where
  \<open>qualification = \<lparr>
     model = gemini_flash,
     prompt = (\<lambda>d. template
       [lit ''5 BANT questions for '', clean d [''productName''], lit ''. Return JSON.'']),
     schema = Some (TArray (TObject
       [(''question'', TString), (''intent'', TString), (''idealAnswer'', TString)])),
     tools = None \<rparr>\<close>

definition cold_dms :: "'n agent_config" where
  \<open>cold_dms = \<lparr>
     model = gemini_flash,
     prompt = (\<lambda>d. template
       [lit ''3 cold DMs for '', clean d [''persona'', ''jobTitle''],
        lit ''. Return JSON array of strings.'']),
     schema = Some (TArray TString),
     tools = None \<rparr>\<close>

definition email_campaign :: "'n agent_config" where
  \<open>email_campaign = \<lparr>
     model = gemini_flash,
     prompt = (\<lambda>d. template
       [lit ''Write email body: "'', clean d [''topic''], lit ''" Goal: "'',
        clean d [''goal''], lit ''". Return JSON.'']),
     schema = Some (TObject [(''subject'', TString), (''body'', TString)]),
     tools = None \<rparr>\<close>

definition email_subjects :: "'n agent_config" where
  \<open>email_subjects = \<lparr>
     model = gemini_flash,
     prompt = (\<lambda>d. template
       [lit ''5 subject lines for "'', clean d [''topic''],
        lit ''". Return JSON array strings.'']),
     schema = Some (TArray TString),
     tools = None \<rparr>\<close>

definition objection_handler :: "'n agent_config" where
  \<open>objection_handler = \<lparr>
     model = gemini_flash,
     prompt = (\<lambda>d. template
       [lit ''3 rebuttals for: "'', clean d [''objection''],
        lit ''". Return JSON array strings.'']),
     schema = Some (TArray TString),
     tools = None \<rparr>\<close>

definition content_score :: "'n agent_config" where
  \<open>content_score = \<lparr>
     model = gemini_flash,
     prompt = (\<lambda>d. template
       [lit ''Analyze SEO content for "'', clean d [''keyword''], lit ''": "'',
        slice_2000 (clean d [''content'']), lit ''". Return JSON.'']),
     schema = Some (TObject
       [(''score'', TInteger), (''readability'', TString), (''keywordDensity'', TNumber),
        (''suggestions'', TArray TString), (''missingKeywords'', TArray TString)]),
     tools = None \<rparr>\<close>

text \<open>The table \<open>AI_AGENTS\<close>, in the order of the source.\<close>

definition AI_AGENTS :: "('n \<Rightarrow> jsstring) \<Rightarrow> (jsstring \<times> 'n agent_config) list" where
  "AI_AGENTS num =
     [(ascii ''niche'', niche),
      (ascii ''persona'', persona),
      (ascii ''magnets'', magnets),
      (ascii ''maps_scout'', maps_scout),
      (ascii ''social_search'', social_search),
      (ascii ''landing_page'', landing_page),
      (ascii ''ad_creatives'', ad_creatives),
      (ascii ''seo_audit'', seo_audit),
      (ascii ''seo_keywords'', seo_keywords),
      (ascii ''chat_reply'', chat_reply num),
      (ascii ''follow_up'', follow_up),
      (ascii ''qualification'', qualification),
      (ascii ''cold_dms'', cold_dms),
      (ascii ''email_campaign'', email_campaign),
      (ascii ''email_subjects'', email_subjects),
      (ascii ''objection_handler'', objection_handler),
      (ascii ''content_score'', content_score)]"

section \<open>The execution route\<close>

text \<open>
  The user document of the principal store: \<open>subscription\<close> (\<open>None\<close> when the field is
  unset) and \<open>usage.tokensUsed\<close>, a count.
\<close>

record user =
  subscription :: "jsstring option"
  tokensUsed :: int

text \<open>
  The request after \<open>authenticateToken\<close>: \<open>req.user.id\<close>, and \<open>req.body.agent\<close> and
  \<open>req.body.payload\<close>, which the route takes from the body as they are: any JSON value,
  or \<open>JUndefined\<close> when the body has none.
\<close>

record 'n request =
  user_id :: jsstring
  agent :: "'n jsval"
  payload :: "'n jsval"

text \<open>The argument of \<open>genAI.models.generateContent\<close>.\<close>

record gen_request =
  req_model :: jsstring
  contents :: jsstring
  responseMimeType :: jsstring
  responseSchema :: "schema option"
  req_tools :: "tool list option"
  maxOutputTokens :: nat

text \<open>
  What the route reads of the backend's result: \<open>result.text\<close>,
  \<open>result.usageMetadata?.totalTokenCount\<close> and
  \<open>result.candidates?.[0]?.groundingMetadata?.groundingChunks\<close>, each \<open>None\<close> when it
  is \<open>undefined\<close>.
\<close>

record 'n gen_result =
  result_text :: "jsstring option"
  totalTokenCount :: "int option"
  groundingChunks :: "'n jsval list option"

text \<open>
  The effects of the route, in the order they happen: the read of the user document, the
  call of the backend, the \<open>$inc\<close> of \<open>usage.tokensUsed\<close>, the error log.
\<close>

datatype event =
    FindById jsstring
  | GenerateContent gen_request
  | IncTokensUsed jsstring int
  | LogAIError jsstring

record world =
  users :: "jsstring \<rightharpoonup> user"
  trace :: "event list"

datatype 'n response = Response nat "'n jsval"

definition error_body :: "string \<Rightarrow> 'n jsval" where
  "error_body msg = JObj [(ascii ''error'', JStr (ascii msg))]"

definition data_body :: "'n jsval \<Rightarrow> 'n jsval" where
  "data_body v = JObj [(ascii ''data'', v)]"

text \<open>
  \<^verbatim>\<open>
  const limits = { hobby: 100000, pro: 1000000, agency: 5000000 };
  if (user.usage.tokensUsed >= limits[user.subscription || 'hobby']) { ... 402 ... }
  \<close>
  A number compared with \<open>undefined\<close> or with an object that is not a number compares
  with NaN, which is false.
\<close>

definition limits :: "(jsstring \<times> int) list" where
  "limits = [(ascii ''hobby'', 100000), (ascii ''pro'', 1000000), (ascii ''agency'', 5000000)]"

definition limit_key :: "user \<Rightarrow> jsstring" where
  "limit_key u =
     (case subscription u of
        None \<Rightarrow> ascii ''hobby''
      | Some s \<Rightarrow> if s = [] then ascii ''hobby'' else s)"

definition quota_exceeded :: "user \<Rightarrow> bool" where
  "quota_exceeded u =
     (case js_get limits (limit_key u) of
        Own ceiling \<Rightarrow> tokensUsed u \<ge> ceiling
      | Inherited \<Rightarrow> False
      | Missing \<Rightarrow> False)"

definition generate_request :: "'n agent_config \<Rightarrow> jsstring \<Rightarrow> gen_request" where
  "generate_request agentConfig p = \<lparr>
     req_model = model agentConfig,
     contents = p,
     responseMimeType =
       (if schema agentConfig \<noteq> None then ascii ''application/json'' else ascii ''text/plain''),
     responseSchema = schema agentConfig,
     req_tools = tools agentConfig,
     maxOutputTokens = 8192 \<rparr>"

text \<open>\<open>result.usageMetadata?.totalTokenCount || 500\<close>: \<open>undefined\<close> and 0 are falsy.\<close>

definition usage_of :: "'n gen_result \<Rightarrow> int" where
  "usage_of result =
     (case totalTokenCount result of
        None \<Rightarrow> 500
      | Some n \<Rightarrow> if n = 0 then 500 else n)"

text \<open>\<open>User.findByIdAndUpdate(id, { $inc: { "usage.tokensUsed": usage } })\<close>\<close>

definition inc_tokensUsed :: "(jsstring \<rightharpoonup> user) \<Rightarrow> jsstring \<Rightarrow> int \<Rightarrow> (jsstring \<rightharpoonup> user)" where
  "inc_tokensUsed us i n =
     (case us i of
        None \<Rightarrow> us
      | Some u \<Rightarrow> us(i \<mapsto> u\<lparr>tokensUsed := tokensUsed u + n\<rparr>))"

text \<open>
  \<open>text.replace(/```json|```/g, '')\<close>: the matches are found left to right, the longer
  alternative first, and the search goes on after each match.
\<close>

fun remove_fences :: "jsstring \<Rightarrow> jsstring" where
  "remove_fences [] = []"
| "remove_fences (c # cs) =
     (if take 7 (c # cs) = ascii ''```json'' then remove_fences (drop 6 cs)
      else if take 3 (c # cs) = ascii ''```'' then remove_fences (drop 2 cs)
      else c # remove_fences cs)"

text \<open>\<open>trim()\<close> removes the white space and the line terminators of ECMAScript at both ends.\<close>

definition is_space :: "16 word \<Rightarrow> bool" where
  "is_space c \<longleftrightarrow>
     c \<in> {0x09, 0x0A, 0x0B, 0x0C, 0x0D, 0x20, 0xA0, 0x1680, 0x2028, 0x2029, 0x202F, 0x205F,
          0x3000, 0xFEFF}
     \<or> (0x2000 \<le> c \<and> c \<le> 0x200A)"

definition trim :: "jsstring \<Rightarrow> jsstring" where
  "trim s = rev (dropWhile is_space (rev (dropWhile is_space s)))"

definition text_value :: "'n gen_result \<Rightarrow> 'n jsval" where
  "text_value result = (case result_text result of None \<Rightarrow> JUndefined | Some t \<Rightarrow> JStr t)"

text \<open>
  The end of the route, after the charge (\<open>JSON_parse\<close> is the platform's \<open>JSON.parse\<close>,
  \<open>None\<close> when it throws a SyntaxError; an \<open>undefined\<close> text is parsed as the string
  \<open>undefined\<close>, and \<open>undefined.replace\<close> throws a TypeError). The test \<open>===\<close> holds of
  the string itself only, not of a value that merely converts to it:
  \<^verbatim>\<open>
  if (agent === 'maps_scout' || agent === 'seo_audit') {
    const grounding = result.candidates?.[0]?.groundingMetadata;
    return res.json({ data: { text: result.text, mapChunks: grounding?.groundingChunks || [] } });
  }
  let output = result.text;
  if (agentConfig.schema) {
    try { output = JSON.parse(result.text); }
    catch (e) { output = JSON.parse(result.text.replace(/```json|```/g, '').trim()); }
  }
  res.json({ data: output });
  \<close>
\<close>

definition respond ::
  "(jsstring \<Rightarrow> 'n jsval option) \<Rightarrow> 'n jsval \<Rightarrow> 'n agent_config \<Rightarrow> 'n gen_result \<Rightarrow>
   exn + 'n response" where
  "respond JSON_parse a agentConfig result =
     (if a = JStr (ascii ''maps_scout'') \<or> a = JStr (ascii ''seo_audit'') then
        Inr (Response 200 (data_body (JObj
          [(ascii ''text'', text_value result),
           (ascii ''mapChunks'',
            JArr (case groundingChunks result of None \<Rightarrow> [] | Some chunks \<Rightarrow> chunks))])))
      else if schema agentConfig \<noteq> None then
        (case JSON_parse (case result_text result of None \<Rightarrow> ascii ''undefined'' | Some t \<Rightarrow> t) of
           Some output \<Rightarrow> Inr (Response 200 (data_body output))
         | None \<Rightarrow>
             (case result_text result of
                None \<Rightarrow> Inl TypeError
              | Some t \<Rightarrow>
                  (case JSON_parse (trim (remove_fences t)) of
                     Some output \<Rightarrow> Inr (Response 200 (data_body output))
                   | None \<Rightarrow> Inl SyntaxError)))
      else Inr (Response 200 (data_body (text_value result))))"

text \<open>
  The body of the \<open>try\<close> block. \<open>AGENTS\<close> is the lookup in the table by key, so that
  \<open>AI_AGENTS[agent]\<close> is \<open>AGENTS\<close> at the key of \<open>agent\<close>; \<open>Number_toString\<close> prints a
  number used as a key; \<open>generateContent\<close> is the backend (\<open>Inl\<close> when the call throws).
  A user document that does not exist makes \<open>user.usage\<close> throw; an inherited property of
  the table has no \<open>prompt\<close>, so calling it throws.
\<close>

definition try_block ::
  "(jsstring \<Rightarrow> 'n agent_config js_lookup) \<Rightarrow> ('n \<Rightarrow> jsstring) \<Rightarrow>
   (gen_request \<Rightarrow> exn + 'n gen_result) \<Rightarrow> (jsstring \<Rightarrow> 'n jsval option) \<Rightarrow>
   'n request \<Rightarrow> world \<Rightarrow> (exn + 'n response) \<times> world" where
  "try_block AGENTS Number_toString generateContent JSON_parse req w =
     (case ToPropertyKey Number_toString (agent req) of
        Inl e \<Rightarrow> (Inl e, w)
      | Inr key \<Rightarrow>
     (case AGENTS key of
        Missing \<Rightarrow> (Inr (Response 404 (error_body ''Invalid agent'')), w)
      | found \<Rightarrow>
          (let w1 = w\<lparr>trace := trace w @ [FindById (user_id req)]\<rparr> in
           case users w (user_id req) of
             None \<Rightarrow> (Inl TypeError, w1)
           | Some u \<Rightarrow>
               if quota_exceeded u then
                 (Inr (Response 402 (error_body ''Quota exceeded. Upgrade required.'')), w1)
               else
                 (case found of
                    Own agentConfig \<Rightarrow>
                      (case prompt agentConfig (payload req) of
                         Inl e \<Rightarrow> (Inl e, w1)
                       | Inr p \<Rightarrow>
                           (let g = generate_request agentConfig p;
                                w2 = w1\<lparr>trace := trace w1 @ [GenerateContent g]\<rparr> in
                            case generateContent g of
                              Inl e \<Rightarrow> (Inl e, w2)
                            | Inr result \<Rightarrow>
                                (let usage = usage_of result;
                                     w3 = w2\<lparr>users := inc_tokensUsed (users w2) (user_id req) usage,
                                             trace := trace w2 @ [IncTokensUsed (user_id req) usage]\<rparr>
                                 in (respond JSON_parse (agent req) agentConfig result, w3))))
                  | _ \<Rightarrow> (Inl TypeError, w1)))))"

text \<open>
  \<^verbatim>\<open>
  app.post('/api/ai/execute', authenticateToken, async (req, res) => {
    try { ... } catch (e) {
      logger.error("AI Error", { error: e.message, userId: req.user.id });
      res.status(500).json({ error: "AI Processing Failed" });
    }
  });
  \<close>
\<close>

definition ai_execute ::
  "(jsstring \<Rightarrow> 'n agent_config js_lookup) \<Rightarrow> ('n \<Rightarrow> jsstring) \<Rightarrow>
   (gen_request \<Rightarrow> exn + 'n gen_result) \<Rightarrow> (jsstring \<Rightarrow> 'n jsval option) \<Rightarrow>
   'n request \<Rightarrow> world \<Rightarrow> 'n response \<times> world" where
  "ai_execute AGENTS Number_toString generateContent JSON_parse req w =
     (case try_block AGENTS Number_toString generateContent JSON_parse req w of
        (Inr res, w') \<Rightarrow> (res, w')
      | (Inl e, w') \<Rightarrow>
          (Response 500 (error_body ''AI Processing Failed''),
           w'\<lparr>trace := trace w' @ [LogAIError (user_id req)]\<rparr>))"

section \<open>Observations on a trace\<close>

fun call_of :: "event \<Rightarrow> gen_request list" where
  "call_of (GenerateContent g) = [g]"
| "call_of _ = []"

text \<open>The backend calls of a trace, in order.\<close>

definition calls :: "event list \<Rightarrow> gen_request list" where
  "calls tr = concat (map call_of tr)"

section \<open>Example data\<close>

text \<open>The text of a natural number below \<open>10^21\<close>, as JavaScript prints it.\<close>

function decimal :: "nat \<Rightarrow> jsstring" where
  "decimal n =
     (if n < 10 then [of_nat (0x30 + n)]
      else decimal (n div 10) @ [of_nat (0x30 + n mod 10)])"
  by pat_completeness auto
termination
  by (relation "measure id") auto


definition inner_json :: jsstring where
  \<open>inner_json = ascii ''{"score": 72}''\<close>

text \<open>
  \<open>JSON.parse\<close> on the three texts the examples below give it, and on these only: it
  parses \<open>inner_json\<close> to the object whose property \<open>score\<close> is 72, and it rejects \<open>fenced\<close>
  (a text that starts with a backquote) and \<open>oops\<close>. Where the parser plays no part in an
  example, the example is stated for every parser.
\<close>

definition parse_score :: "jsstring \<Rightarrow> nat jsval option" where
  "parse_score s = (if s = inner_json then Some (JObj [(ascii ''score'', JNum 72)]) else None)"

definition stored_user :: "string \<Rightarrow> int \<Rightarrow> user" where
  "stored_user tier n = \<lparr>subscription = Some (ascii tier), tokensUsed = n\<rparr>"

definition one_user_world :: "string \<Rightarrow> int \<Rightarrow> world" where
  "one_user_world tier n = \<lparr>users = [ascii ''u1'' \<mapsto> stored_user tier n], trace = []\<rparr>"

definition backend_result :: "jsstring \<Rightarrow> int option \<Rightarrow> nat gen_result" where
  "backend_result t cost = \<lparr>result_text = Some t, totalTokenCount = cost, groundingChunks = None\<rparr>"

definition backend_text :: "jsstring \<Rightarrow> int option \<Rightarrow> gen_request \<Rightarrow> exn + nat gen_result" where
  "backend_text t cost g = Inr (backend_result t cost)"

text \<open>A request that names its agent by a string, and one that sends \<open>[name]\<close> instead.\<close>

definition request :: "string \<Rightarrow> nat jsval \<Rightarrow> nat request" where
  "request a d = \<lparr>user_id = ascii ''u1'', agent = JStr (ascii a), payload = d\<rparr>"

definition array_request :: "string \<Rightarrow> nat jsval \<Rightarrow> nat request" where
  "array_request a d = \<lparr>user_id = ascii ''u1'', agent = JArr [JStr (ascii a)], payload = d\<rparr>"

definition product_payload :: "nat jsval" where
  "product_payload =
     JObj [(ascii ''productName'', JStr (ascii ''Meti'')), (ascii ''description'', JStr (ascii ''CRM''))]"


definition product_niche_prompt :: jsstring where
  \<open>product_niche_prompt =
     ascii ''Analyze product: "Meti". Desc: CRM. Identify 3 profitable niches. Return valid JSON.''\<close>

definition empty_scout_prompt :: jsstring where
  \<open>empty_scout_prompt = ascii ''Find 5 verified business leads for "" in "".''\<close>

definition chat_payload :: "jsstring \<Rightarrow> jsstring \<Rightarrow> nat jsval" where
  "chat_payload name msg =
     JObj [(ascii ''persona'', JObj [(ascii ''jobTitle'', JStr (ascii ''CEO''))]),
           (ascii ''productName'', JStr name),
           (ascii ''history'',
            JArr [JObj [(ascii ''role'', JStr (ascii ''user'')), (ascii ''text'', JStr msg)]])]"

section \<open>Auxiliary facts\<close>

lemma strip_control_idem: "strip_control (take n (strip_control s)) = take n (strip_control s)"
proof -
  have "\<forall>c \<in> set (take n (strip_control s)). \<not> is_control c"
    using set_take_subset [of n "strip_control s"] by (auto simp: strip_control_def)
  then show ?thesis
    unfolding strip_control_def [of "take n _"] by (simp only: filter_True)
qed

lemma of_char_lt: "(of_char x :: nat) < 2 ^ 16"
proof -
  have "(of_char x :: nat) < 256"
    using mod_less_divisor [of 256 "of_char x :: nat"] by simp
  also have "(256 :: nat) < 2 ^ 16" by simp
  finally show ?thesis .
qed

lemma ascii_unit_inj: "(of_nat (of_char c) :: 16 word) = of_nat (of_char d) \<Longrightarrow> c = d"
proof -
  assume "(of_nat (of_char c) :: 16 word) = of_nat (of_char d)"
  then have "unat (of_nat (of_char c) :: 16 word) = unat (of_nat (of_char d) :: 16 word)"
    by simp
  then have "(of_char c :: nat) = of_char d"
    using of_char_lt [of c] of_char_lt [of d] by (simp add: unat_of_nat)
  then show "c = d" by simp
qed

text \<open>Distinct ASCII literals are distinct JavaScript strings.\<close>

lemma ascii_eq_iff: "ascii s = ascii t \<longleftrightarrow> s = t"
proof -
  have "inj (\<lambda>c. of_nat (of_char c) :: 16 word)" by (rule injI) (rule ascii_unit_inj)
  then have "inj (map (\<lambda>c. of_nat (of_char c) :: 16 word))" by simp
  then show ?thesis unfolding ascii_def by (auto dest: injD)
qed

lemma js_get_Own_iff: "js_get obj k = Own v \<longleftrightarrow> map_of obj k = Some v"
  by (simp add: js_get_def split: option.splits)

text \<open>In the table, the entries with \<open>tools\<close> are exactly the two names the route tests.\<close>

lemma tools_by_name:
  "map_of (AI_AGENTS num) a = Some cfg \<Longrightarrow>
   (tools cfg \<noteq> None) = (a = ascii ''maps_scout'' \<or> a = ascii ''seo_audit'')"
  unfolding AI_AGENTS_def
  by (auto simp: ascii_eq_iff niche_def persona_def magnets_def maps_scout_def social_search_def
      landing_page_def ad_creatives_def seo_audit_def seo_keywords_def chat_reply_def follow_up_def
      qualification_def cold_dms_def email_campaign_def email_subjects_def objection_handler_def
      content_score_def split: if_splits)

text \<open>The route once the backend has answered: the charge is made, then the answer is shaped.\<close>

lemma ai_execute_invoked:
  assumes "ToPropertyKey Number_toString (agent req) = Inr key"
    and "AGENTS key = Own cfg"
    and "users w (user_id req) = Some u"
    and "\<not> quota_exceeded u"
    and "prompt cfg (payload req) = Inr p"
    and "generateContent (generate_request cfg p) = Inr result"
  shows "ai_execute AGENTS Number_toString generateContent JSON_parse req w =
        (case respond JSON_parse (agent req) cfg result of
           Inr res \<Rightarrow>
             (res,
              w\<lparr>users := inc_tokensUsed (users w) (user_id req) (usage_of result),
                trace := trace w @
                  [FindById (user_id req), GenerateContent (generate_request cfg p),
                   IncTokensUsed (user_id req) (usage_of result)]\<rparr>)
         | Inl e \<Rightarrow>
             (Response 500 (error_body ''AI Processing Failed''),
              w\<lparr>users := inc_tokensUsed (users w) (user_id req) (usage_of result),
                trace := trace w @
                  [FindById (user_id req), GenerateContent (generate_request cfg p),
                   IncTokensUsed (user_id req) (usage_of result), LogAIError (user_id req)]\<rparr>))"
  using assms by (simp add: ai_execute_def try_block_def Let_def split: sum.splits)

text \<open>The route when the backend is not reached or does not answer: nothing is charged.\<close>

lemma ai_execute_not_invoked:
  assumes "\<nexists>key cfg u p result.
      ToPropertyKey Number_toString (agent req) = Inr key \<and> AGENTS key = Own cfg \<and>
      users w (user_id req) = Some u \<and> \<not> quota_exceeded u \<and>
      prompt cfg (payload req) = Inr p \<and> generateContent (generate_request cfg p) = Inr result"
  shows "\<exists>new. snd (ai_execute AGENTS Number_toString generateContent JSON_parse req w) =
               w\<lparr>trace := trace w @ new\<rparr> \<and>
             (\<forall>i n. IncTokensUsed i n \<notin> set new)"
proof (cases "ToPropertyKey Number_toString (agent req)")
  case (Inl e)
  then have "snd (ai_execute AGENTS Number_toString generateContent JSON_parse req w) =
      w\<lparr>trace := trace w @ [LogAIError (user_id req)]\<rparr>"
    by (simp add: ai_execute_def try_block_def Let_def)
  then show ?thesis by auto
next
  case (Inr key)
  show ?thesis
  proof (cases "AGENTS key")
    case Missing
    with Inr have "snd (ai_execute AGENTS Number_toString generateContent JSON_parse req w) =
        w\<lparr>trace := trace w @ []\<rparr>"
      by (simp add: ai_execute_def try_block_def Let_def)
    then show ?thesis by (intro exI [of _ "[]"]) simp
  next
    case Inherited
    with Inr have "snd (ai_execute AGENTS Number_toString generateContent JSON_parse req w) =
        w\<lparr>trace := trace w @ [FindById (user_id req)]\<rparr> \<or>
        snd (ai_execute AGENTS Number_toString generateContent JSON_parse req w) =
        w\<lparr>trace := trace w @ [FindById (user_id req), LogAIError (user_id req)]\<rparr>"
      by (simp add: ai_execute_def try_block_def Let_def split: option.splits)
    then show ?thesis by auto
  next
    case (Own cfg)
    show ?thesis
    proof (cases "users w (user_id req)")
      case None
      with Inr Own have "snd (ai_execute AGENTS Number_toString generateContent JSON_parse req w) =
          w\<lparr>trace := trace w @ [FindById (user_id req), LogAIError (user_id req)]\<rparr>"
        by (simp add: ai_execute_def try_block_def Let_def)
      then show ?thesis by auto
    next
      case (Some u)
      show ?thesis
      proof (cases "quota_exceeded u")
        case True
        with Inr Own Some
        have "snd (ai_execute AGENTS Number_toString generateContent JSON_parse req w) =
            w\<lparr>trace := trace w @ [FindById (user_id req)]\<rparr>"
          by (simp add: ai_execute_def try_block_def Let_def)
        then show ?thesis by auto
      next
        case False
        show ?thesis
        proof (cases "prompt cfg (payload req)")
          case (Inl e)
          with Inr Own Some False
          have "snd (ai_execute AGENTS Number_toString generateContent JSON_parse req w) =
              w\<lparr>trace := trace w @ [FindById (user_id req), LogAIError (user_id req)]\<rparr>"
            by (simp add: ai_execute_def try_block_def Let_def)
          then show ?thesis by auto
        next
          case p: (Inr p)
          have "\<nexists>result. generateContent (generate_request cfg p) = Inr result"
            using assms Inr Own Some False p by blast
          then obtain e where "generateContent (generate_request cfg p) = Inl e"
            by (cases "generateContent (generate_request cfg p)") auto
          with Inr Own Some False p
          have "snd (ai_execute AGENTS Number_toString generateContent JSON_parse req w) =
              w\<lparr>trace := trace w @ [FindById (user_id req),
                 GenerateContent (generate_request cfg p), LogAIError (user_id req)]\<rparr>"
            by (simp add: ai_execute_def try_block_def Let_def)
          then show ?thesis by auto
        qed
      qed
    qed
  qed
qed

text \<open>A name that is neither in the table nor on \<open>Object.prototype\<close> is answered with 404,
  and nothing is read, called or charged.\<close>

lemma unknown_name_404:
  assumes "a \<notin> fst ` set (AI_AGENTS num)" and "a \<notin> set object_prototype_keys"
  shows "ai_execute (js_get (AI_AGENTS num)) Number_toString generateContent JSON_parse
           \<lparr>user_id = i, agent = JStr a, payload = d\<rparr> w =
         (Response 404 (error_body ''Invalid agent''), w)"
proof -
  have "map_of (AI_AGENTS num) a = None" using assms(1) by (simp add: map_of_eq_None_iff)
  then have "js_get (AI_AGENTS num) a = Missing" using assms(2) by (simp add: js_get_def)
  then show ?thesis by (simp add: ai_execute_def try_block_def)
qed

lemma does_not_exist_404:
  "ai_execute (js_get (AI_AGENTS num)) Number_toString generateContent JSON_parse
     \<lparr>user_id = i, agent = JStr (ascii ''does_not_exist''), payload = d\<rparr> w =
   (Response 404 (error_body ''Invalid agent''), w)"
  by (rule unknown_name_404)
    (auto simp: AI_AGENTS_def object_prototype_keys_def ascii_eq_iff)

lemma quote_units_plain: "quote_units (replicate n 0x61) = replicate n 0x61"
proof (induction n rule: less_induct)
  case (less n)
  show ?case
  proof (cases n)
    case 0
    then show ?thesis by simp
  next
    case (Suc m)
    show ?thesis
    proof (cases m)
      case 0
      with Suc show ?thesis by (simp add: escape_unit_def is_lead_def is_trail_def)
    next
      case (Suc k)
      have "quote_units (replicate m 0x61) = replicate m 0x61"
        using less [of m] \<open>n = Suc m\<close> by simp
      with \<open>n = Suc m\<close> Suc show ?thesis
        by (simp add: escape_unit_def is_lead_def is_trail_def)
    qed
  qed
qed

lemmas example_defs =
  request_def array_request_def one_user_world_def stored_user_def backend_text_def
  backend_result_def product_payload_def parse_score_def inner_json_def

lemmas route_defs =
  ai_execute_def try_block_def respond_def js_get_def AI_AGENTS_def ascii_eq_iff
  quota_exceeded_def limit_key_def limits_def Let_def

lemmas prompt_defs =
  clean_def lit_def or_None_def slice_2000_def stringified_def

lemma cleanInput_sanitize: "cleanInput (sanitize v) = cleanInput v"
  by (cases v) (simp_all add: slice0_def strip_control_idem)

lemma get_prop_sanitize:
  "get_prop (sanitize d) k = (case get_prop d k of Inl e \<Rightarrow> Inl e | Inr v \<Rightarrow> Inr (sanitize v))"
  by (cases d) (simp_all add: map_of_map split: option.splits)

lemma path_sanitize:
  "path (sanitize d) ks = (case path d ks of Inl e \<Rightarrow> Inl e | Inr v \<Rightarrow> Inr (sanitize v))"
  by (induction ks arbitrary: d) (simp_all add: get_prop_sanitize split: sum.splits)

lemma clean_sanitize: "clean (sanitize d) ks = clean d ks"
  by (simp add: clean_def path_sanitize cleanInput_sanitize split: sum.splits)

text \<open>
  Every prompt of the table but that of \<open>chat_reply\<close> is the same on a payload and on its
  sanitized copy: the strings it takes from the payload are sanitized ones.
\<close>

lemma other_prompts_sanitized:
  assumes "map_of (AI_AGENTS num) a = Some cfg" and "a \<noteq> ascii ''chat_reply''"
  shows "prompt cfg (sanitize d) = prompt cfg d"
  using assms unfolding AI_AGENTS_def
  by (auto simp: ascii_eq_iff clean_sanitize niche_def persona_def magnets_def maps_scout_def
      social_search_def landing_page_def ad_creatives_def seo_audit_def seo_keywords_def
      follow_up_def qualification_def cold_dms_def email_campaign_def email_subjects_def
      objection_handler_def content_score_def split: if_splits)

section \<open>The sanitizer\<close>

text \<open>
  C8. \<open>cleanInput\<close> returns the empty string for every value that is not a string. For a
  string it returns the string without the code units in U+0000..U+001F and
  U+007F..U+009F, cut to its first 5000 code units; so the result never has more than
  5000 code units, whatever the input.
\<close>

theorem cleanInput_spec:
  "(case v of
      JStr s \<Rightarrow> cleanInput v = take 5000 (filter (\<lambda>c. c \<notin> {0..0x1F} \<union> {0x7F..0x9F}) s)
    | _ \<Rightarrow> cleanInput v = [])
   \<and> length (cleanInput v) \<le> 5000"
  by (cases v) (simp_all add: slice0_def strip_control_def is_control_def)

text \<open>
  C9. The sanitizer is idempotent on strings: cleaning a cleaned string changes nothing.
\<close>

theorem cleanInput_idempotent:
  "cleanInput (JStr (cleanInput (JStr s)) :: 'n jsval) = cleanInput (JStr s :: 'n jsval)"
  by (simp add: slice0_def strip_control_idem)

section \<open>The registry lookup\<close>

text \<open>
  C4, at the name \<open>constructor\<close>, which is not in the table: \<open>AI_AGENTS[agent]\<close> finds the
  inherited \<open>Object.prototype.constructor\<close>, so the route does not answer 404. It reads the
  user document and answers 402 when the quota is used up; otherwise calling the missing
  \<open>prompt\<close> throws and the answer is 500.
\<close>

theorem inherited_name_not_404:
  "ai_execute (js_get (AI_AGENTS num)) Number_toString generateContent JSON_parse
     \<lparr>user_id = i, agent = JStr (ascii ''constructor''), payload = d\<rparr> w =
   (case users w i of
      None \<Rightarrow>
        (Response 500 (error_body ''AI Processing Failed''),
         w\<lparr>trace := trace w @ [FindById i, LogAIError i]\<rparr>)
    | Some u \<Rightarrow>
        if quota_exceeded u then
          (Response 402 (error_body ''Quota exceeded. Upgrade required.''),
           w\<lparr>trace := trace w @ [FindById i]\<rparr>)
        else
          (Response 500 (error_body ''AI Processing Failed''),
           w\<lparr>trace := trace w @ [FindById i, LogAIError i]\<rparr>))"
proof -
  have "js_get (AI_AGENTS num) (ascii ''constructor'') = Inherited"
    by (simp add: js_get_def AI_AGENTS_def object_prototype_keys_def ascii_eq_iff)
  then show ?thesis
    by (simp add: ai_execute_def try_block_def split: option.splits)
qed

section \<open>The quota\<close>

text \<open>
  C3. A principal on one of the three tiers whose \<open>tokensUsed\<close> has reached the ceiling of
  the tier, asking for any agent of the table, is answered 402 (quota exceeded). The only
  effect is the read of the user document: the backend is not called and the stored users,
  hence \<open>tokensUsed\<close>, are unchanged.
\<close>

theorem quota_exceeded_rejects:
  assumes "ToPropertyKey Number_toString (agent req) = Inr key"
    and "AGENTS key = Own cfg"
    and "users w (user_id req) = Some u"
    and "subscription u = Some tier"
    and "(tier, ceiling) \<in> set limits"
    and "tokensUsed u \<ge> ceiling"
  shows "ai_execute AGENTS Number_toString generateContent JSON_parse req w =
           (Response 402 (error_body ''Quota exceeded. Upgrade required.''),
            w\<lparr>trace := trace w @ [FindById (user_id req)]\<rparr>)"
proof -
  have "quota_exceeded u"
    using assms(4-6)
    by (auto simp: quota_exceeded_def limit_key_def limits_def js_get_def ascii_eq_iff)
  then show ?thesis
    using assms(1-3) by (simp add: ai_execute_def try_block_def)
qed

theorem quota_exceeded_rejects_witness:
  "\<forall>generateContent JSON_parse.
     ai_execute (js_get (AI_AGENTS decimal)) decimal generateContent JSON_parse
       (request ''niche'' product_payload) (one_user_world ''hobby'' 100000) =
     (Response 402 (error_body ''Quota exceeded. Upgrade required.''),
      \<lparr>users = [ascii ''u1'' \<mapsto> stored_user ''hobby'' 100000],
       trace = [FindById (ascii ''u1'')]\<rparr>)"
proof (intro allI)
  fix generateContent :: "gen_request \<Rightarrow> exn + nat gen_result"
    and JSON_parse :: "jsstring \<Rightarrow> nat jsval option"
  show "ai_execute (js_get (AI_AGENTS decimal)) decimal generateContent JSON_parse
       (request ''niche'' product_payload) (one_user_world ''hobby'' 100000) =
     (Response 402 (error_body ''Quota exceeded. Upgrade required.''),
      \<lparr>users = [ascii ''u1'' \<mapsto> stored_user ''hobby'' 100000],
       trace = [FindById (ascii ''u1'')]\<rparr>)"
    using quota_exceeded_rejects [of decimal "request ''niche'' product_payload"
        "ascii ''niche''" "js_get (AI_AGENTS decimal)" niche "one_user_world ''hobby'' 100000"
        "stored_user ''hobby'' 100000" "ascii ''hobby''" 100000 generateContent JSON_parse]
    by (simp add: js_get_def AI_AGENTS_def ascii_eq_iff limits_def request_def
        one_user_world_def stored_user_def)
qed

text \<open>
  C10. For a principal whose subscription is a non-empty string other than \<open>hobby\<close>, \<open>pro\<close>
  and \<open>agency\<close>, the lookup in \<open>limits\<close> gives no ceiling, the comparison is false, and
  the route never answers 402, however large \<open>tokensUsed\<close> is.
\<close>

theorem unknown_tier_unlimited:
  assumes "subscription u = Some s"
    and "s \<noteq> []"
    and "s \<notin> {ascii ''hobby'', ascii ''pro'', ascii ''agency''}"
    and "users w (user_id req) = Some u"
  shows "(\<forall>ceiling. js_get limits (limit_key u) \<noteq> Own ceiling) \<and>
         \<not> quota_exceeded u \<and>
         (\<forall>b. fst (ai_execute AGENTS Number_toString generateContent JSON_parse req w)
              \<noteq> Response 402 b)"
proof -
  have k: "limit_key u = s" using assms(1,2) by (simp add: limit_key_def)
  have l: "map_of limits s = None" using assms(3) by (simp add: limits_def)
  have q: "\<not> quota_exceeded u" using k l by (simp add: quota_exceeded_def js_get_def)
  have "\<forall>b. fst (ai_execute AGENTS Number_toString generateContent JSON_parse req w)
            \<noteq> Response 402 b"
    using q assms(4)
    by (auto simp: ai_execute_def try_block_def respond_def Let_def
        split: js_lookup.splits sum.splits option.splits prod.splits)
  then show ?thesis using k l q by (simp add: js_get_def)
qed

theorem unknown_tier_unlimited_witness:
  "(\<forall>ceiling. js_get limits (limit_key (stored_user ''enterprise'' 999999999)) \<noteq> Own ceiling) \<and>
   \<not> quota_exceeded (stored_user ''enterprise'' 999999999) \<and>
   (\<forall>generateContent JSON_parse b.
      fst (ai_execute (js_get (AI_AGENTS decimal)) decimal generateContent JSON_parse
             (request ''niche'' product_payload) (one_user_world ''enterprise'' 999999999))
        \<noteq> Response 402 b)"
proof -
  have "(\<forall>ceiling. js_get limits (limit_key (stored_user ''enterprise'' 999999999)) \<noteq> Own ceiling) \<and>
      \<not> quota_exceeded (stored_user ''enterprise'' 999999999) \<and>
      (\<forall>b. fst (ai_execute (js_get (AI_AGENTS decimal)) decimal generateContent JSON_parse
             (request ''niche'' product_payload) (one_user_world ''enterprise'' 999999999))
        \<noteq> Response 402 b)"
    for generateContent :: "gen_request \<Rightarrow> exn + nat gen_result"
      and JSON_parse :: "jsstring \<Rightarrow> nat jsval option"
    using unknown_tier_unlimited [of "stored_user ''enterprise'' 999999999"
        "ascii ''enterprise''" "one_user_world ''enterprise'' 999999999"
        "request ''niche'' product_payload" "js_get (AI_AGENTS decimal)" decimal
        generateContent JSON_parse]
    by (simp add: ascii_eq_iff request_def one_user_world_def stored_user_def)
      (simp add: ascii_def)
  then show ?thesis by blast
qed

section \<open>The charge\<close>

text \<open>
  C2, as the route does it. When the request reaches the backend and the backend returns a
  result, the principal is charged exactly once, before the answer is shaped:
  \<open>tokensUsed\<close> grows by the cost the result reports, or by 500 when it reports none or
  reports 0, and the one \<open>$inc\<close> is the only change of the store, whether or not the
  shaping then fails. In every other case (the agent is not found, the principal has no
  document or no quota left, the prompt cannot be built, the backend call throws) the
  store is unchanged and no \<open>$inc\<close> is made.
\<close>

theorem charged_once_per_backend_result:
  "(\<forall>key cfg u p result.
      ToPropertyKey Number_toString (agent req) = Inr key \<and> AGENTS key = Own cfg \<and>
      users w (user_id req) = Some u \<and> \<not> quota_exceeded u \<and>
      prompt cfg (payload req) = Inr p \<and> generateContent (generate_request cfg p) = Inr result
      \<longrightarrow>
      (\<exists>tail. snd (ai_execute AGENTS Number_toString generateContent JSON_parse req w) =
          w\<lparr>users := (users w)(user_id req \<mapsto>
                  u\<lparr>tokensUsed := tokensUsed u +
                      (case totalTokenCount result of
                         None \<Rightarrow> 500
                       | Some n \<Rightarrow> if n = 0 then 500 else n)\<rparr>),
            trace := trace w @
              [FindById (user_id req), GenerateContent (generate_request cfg p),
               IncTokensUsed (user_id req)
                 (case totalTokenCount result of
                    None \<Rightarrow> 500
                  | Some n \<Rightarrow> if n = 0 then 500 else n)] @ tail\<rparr> \<and>
          (tail = [] \<or> tail = [LogAIError (user_id req)])))
   \<and>
   ((\<nexists>key cfg u p result.
      ToPropertyKey Number_toString (agent req) = Inr key \<and> AGENTS key = Own cfg \<and>
      users w (user_id req) = Some u \<and> \<not> quota_exceeded u \<and>
      prompt cfg (payload req) = Inr p \<and> generateContent (generate_request cfg p) = Inr result)
      \<longrightarrow>
      (\<exists>new. snd (ai_execute AGENTS Number_toString generateContent JSON_parse req w) =
          w\<lparr>trace := trace w @ new\<rparr> \<and>
          (\<forall>i n. IncTokensUsed i n \<notin> set new)))"
proof (intro conjI allI impI)
  fix key cfg u p result
  assume h: "ToPropertyKey Number_toString (agent req) = Inr key \<and> AGENTS key = Own cfg \<and>
      users w (user_id req) = Some u \<and> \<not> quota_exceeded u \<and>
      prompt cfg (payload req) = Inr p \<and> generateContent (generate_request cfg p) = Inr result"
  let ?amount = "case totalTokenCount result of None \<Rightarrow> 500 | Some n \<Rightarrow> if n = 0 then 500 else n"
  let ?w = "w\<lparr>users := (users w)(user_id req \<mapsto> u\<lparr>tokensUsed := tokensUsed u + ?amount\<rparr>),
      trace := trace w @ [FindById (user_id req), GenerateContent (generate_request cfg p),
        IncTokensUsed (user_id req) ?amount]\<rparr>"
  have e: "ai_execute AGENTS Number_toString generateContent JSON_parse req w =
        (case respond JSON_parse (agent req) cfg result of
           Inr res \<Rightarrow> (res, ?w)
         | Inl e \<Rightarrow> (Response 500 (error_body ''AI Processing Failed''),
             ?w\<lparr>trace := trace ?w @ [LogAIError (user_id req)]\<rparr>))"
    using ai_execute_invoked
      [of Number_toString req key AGENTS cfg w u p generateContent result JSON_parse] h
    by (simp add: usage_of_def inc_tokensUsed_def split: sum.splits)
  show "\<exists>tail. snd (ai_execute AGENTS Number_toString generateContent JSON_parse req w) =
          w\<lparr>users := (users w)(user_id req \<mapsto> u\<lparr>tokensUsed := tokensUsed u + ?amount\<rparr>),
            trace := trace w @
              [FindById (user_id req), GenerateContent (generate_request cfg p),
               IncTokensUsed (user_id req) ?amount] @ tail\<rparr> \<and>
          (tail = [] \<or> tail = [LogAIError (user_id req)])"
  proof (cases "respond JSON_parse (agent req) cfg result")
    case (Inl x)
    with e show ?thesis by (intro exI [of _ "[LogAIError (user_id req)]"]) simp
  next
    case (Inr res)
    with e show ?thesis by (intro exI [of _ "[]"]) simp
  qed
next
  assume "\<nexists>key cfg u p result.
      ToPropertyKey Number_toString (agent req) = Inr key \<and> AGENTS key = Own cfg \<and>
      users w (user_id req) = Some u \<and> \<not> quota_exceeded u \<and>
      prompt cfg (payload req) = Inr p \<and> generateContent (generate_request cfg p) = Inr result"
  then show "\<exists>new. snd (ai_execute AGENTS Number_toString generateContent JSON_parse req w) =
          w\<lparr>trace := trace w @ new\<rparr> \<and> (\<forall>i n. IncTokensUsed i n \<notin> set new)"
    by (rule ai_execute_not_invoked)
qed

text \<open>
  A \<open>niche\<close> request answered at cost 7 is charged 7; a \<open>social_search\<close> request with the
  payload \<open>{}\<close>, whose prompt throws on \<open>d.persona.jobTitle\<close>, leaves the store as it was.
\<close>

theorem charged_once_per_backend_result_witness:
  "\<forall>JSON_parse.
     users (snd (ai_execute (js_get (AI_AGENTS decimal)) decimal
        (backend_text (ascii ''oops'') (Some 7)) JSON_parse
        (request ''niche'' product_payload) (one_user_world ''hobby'' 0))) =
       [ascii ''u1'' \<mapsto> stored_user ''hobby'' 7] \<and>
     users (snd (ai_execute (js_get (AI_AGENTS decimal)) decimal
        (backend_text (ascii ''oops'') (Some 7)) JSON_parse
        (request ''social_search'' (JObj [])) (one_user_world ''hobby'' 0))) =
       [ascii ''u1'' \<mapsto> stored_user ''hobby'' 0]"
proof (intro allI)
  fix JSON_parse :: "jsstring \<Rightarrow> nat jsval option"
  let ?gen = "backend_text (ascii ''oops'') (Some 7)"
  let ?w = "one_user_world ''hobby'' 0"
  have p: "prompt niche product_payload = Inr product_niche_prompt"
    by (simp add: niche_def prompt_defs product_payload_def ascii_eq_iff)
      (simp add: product_niche_prompt_def ascii_def slice0_def strip_control_def is_control_def)
  have h1: "ToPropertyKey decimal (agent (request ''niche'' product_payload)) = Inr (ascii ''niche'') \<and>
      js_get (AI_AGENTS decimal) (ascii ''niche'') = Own niche \<and>
      users ?w (user_id (request ''niche'' product_payload)) = Some (stored_user ''hobby'' 0) \<and>
      \<not> quota_exceeded (stored_user ''hobby'' 0) \<and>
      prompt niche (payload (request ''niche'' product_payload)) = Inr product_niche_prompt \<and>
      ?gen (generate_request niche product_niche_prompt) = Inr (backend_result (ascii ''oops'') (Some 7))"
    using p
    by (simp add: js_get_def AI_AGENTS_def ascii_eq_iff request_def one_user_world_def
        stored_user_def quota_exceeded_def limit_key_def limits_def backend_text_def)
  have h2: "\<nexists>key cfg u p result.
      ToPropertyKey decimal (agent (request ''social_search'' (JObj []))) = Inr key \<and>
      js_get (AI_AGENTS decimal) key = Own cfg \<and>
      users ?w (user_id (request ''social_search'' (JObj []))) = Some u \<and> \<not> quota_exceeded u \<and>
      prompt cfg (payload (request ''social_search'' (JObj []))) = Inr p \<and>
      ?gen (generate_request cfg p) = Inr result"
    by (auto simp: js_get_def AI_AGENTS_def ascii_eq_iff request_def social_search_def
        prompt_defs)
  note t1 = charged_once_per_backend_result
      [of decimal "request ''niche'' product_payload" "js_get (AI_AGENTS decimal)" ?w ?gen
        JSON_parse, THEN conjunct1, rule_format, OF h1]
  note t2 = charged_once_per_backend_result
      [of decimal "request ''social_search'' (JObj [])" "js_get (AI_AGENTS decimal)" ?w ?gen
        JSON_parse, THEN conjunct2, rule_format, OF h2]
  from t1 have "users (snd (ai_execute (js_get (AI_AGENTS decimal)) decimal ?gen JSON_parse
        (request ''niche'' product_payload) ?w)) = [ascii ''u1'' \<mapsto> stored_user ''hobby'' 7]"
    by (auto simp: request_def one_user_world_def stored_user_def backend_result_def)
  moreover from t2 have "users (snd (ai_execute (js_get (AI_AGENTS decimal)) decimal ?gen
        JSON_parse (request ''social_search'' (JObj [])) ?w)) =
      [ascii ''u1'' \<mapsto> stored_user ''hobby'' 0]"
    by (auto simp: one_user_world_def)
  ultimately show "users (snd (ai_execute (js_get (AI_AGENTS decimal)) decimal
        (backend_text (ascii ''oops'') (Some 7)) JSON_parse
        (request ''niche'' product_payload) (one_user_world ''hobby'' 0))) =
       [ascii ''u1'' \<mapsto> stored_user ''hobby'' 7] \<and>
     users (snd (ai_execute (js_get (AI_AGENTS decimal)) decimal
        (backend_text (ascii ''oops'') (Some 7)) JSON_parse
        (request ''social_search'' (JObj [])) (one_user_world ''hobby'' 0))) =
       [ascii ''u1'' \<mapsto> stored_user ''hobby'' 0]"
    by simp
qed

text \<open>
  The answer \<open>oops\<close> to a \<open>niche\<close> request fails both parses: the caller gets 500, and the
  principal's \<open>tokensUsed\<close> has gone from 0 to the reported cost 7. A \<open>maps_scout\<close> answer
  that reports the cost 0 is charged 500.
\<close>

theorem charged_despite_normalization_failure:
  "fst (ai_execute (js_get (AI_AGENTS decimal)) decimal (backend_text (ascii ''oops'') (Some 7))
          parse_score (request ''niche'' product_payload) (one_user_world ''hobby'' 0))
     = Response 500 (error_body ''AI Processing Failed'') \<and>
   map_option tokensUsed (users (one_user_world ''hobby'' 0) (ascii ''u1'')) = Some 0 \<and>
   map_option tokensUsed
     (users (snd (ai_execute (js_get (AI_AGENTS decimal)) decimal
          (backend_text (ascii ''oops'') (Some 7)) parse_score
          (request ''niche'' product_payload) (one_user_world ''hobby'' 0)))
        (ascii ''u1'')) = Some 7 \<and>
   fst (ai_execute (js_get (AI_AGENTS decimal)) decimal
          (backend_text (ascii ''Acme Cafe'') (Some 0)) parse_score
          (request ''maps_scout'' (JObj [])) (one_user_world ''hobby'' 0))
     = Response 200 (data_body (JObj
         [(ascii ''text'', JStr (ascii ''Acme Cafe'')), (ascii ''mapChunks'', JArr [])])) \<and>
   map_option tokensUsed
     (users (snd (ai_execute (js_get (AI_AGENTS decimal)) decimal
          (backend_text (ascii ''Acme Cafe'') (Some 0)) parse_score
          (request ''maps_scout'' (JObj [])) (one_user_world ''hobby'' 0)))
        (ascii ''u1'')) = Some 500"
  apply (simp add: route_defs example_defs prompt_defs niche_def maps_scout_def text_value_def
      inc_tokensUsed_def usage_of_def)
  apply (simp add: ascii_def trim_def is_space_def)
  done

section \<open>The shape of the answer\<close>

text \<open>
  When the agent is named by a string of the table and the backend answers, the body
  matches the contract: with \<open>tools\<close> it is the grounded object, with a \<open>schema\<close> and no
  \<open>tools\<close> a value that \<open>JSON.parse\<close> produced or the failure 500, with neither the text.
\<close>

lemma string_name_shape:
  assumes "agent req = JStr a"
    and "js_get (AI_AGENTS num) a = Own cfg"
    and "users w (user_id req) = Some u"
    and "\<not> quota_exceeded u"
    and "prompt cfg (payload req) = Inr p"
    and "generateContent (generate_request cfg p) = Inr result"
  shows "let res = fst (ai_execute (js_get (AI_AGENTS num)) Number_toString generateContent
                          JSON_parse req w) in
         if tools cfg \<noteq> None then
           res = Response 200 (data_body (JObj
             [(ascii ''text'', text_value result),
              (ascii ''mapChunks'',
               JArr (case groundingChunks result of None \<Rightarrow> [] | Some chunks \<Rightarrow> chunks))]))
         else if schema cfg \<noteq> None then
           (\<exists>s output. JSON_parse s = Some output \<and> res = Response 200 (data_body output))
           \<or> res = Response 500 (error_body ''AI Processing Failed'')
         else res = Response 200 (data_body (text_value result))"
proof -
  have t: "(tools cfg \<noteq> None) = (a = ascii ''maps_scout'' \<or> a = ascii ''seo_audit'')"
    using assms(2) unfolding js_get_Own_iff by (rule tools_by_name)
  have e: "fst (ai_execute (js_get (AI_AGENTS num)) Number_toString generateContent JSON_parse
                  req w) =
      (case respond JSON_parse (agent req) cfg result of
         Inr res \<Rightarrow> res
       | Inl e \<Rightarrow> Response 500 (error_body ''AI Processing Failed''))"
    using ai_execute_invoked
      [of Number_toString req a "js_get (AI_AGENTS num)" cfg w u p generateContent result
        JSON_parse] assms
    by (simp split: sum.splits)
  show ?thesis
    unfolding e Let_def using t assms(1)
    by (auto simp: respond_def split: option.splits)
qed

text \<open>
  C1, at a request whose \<open>agent\<close> is the array \<open>["maps_scout"]\<close>. The lookup
  \<open>AI_AGENTS[agent]\<close> turns the array into the key \<open>maps_scout\<close> and finds that contract,
  whose \<open>tools\<close> are sent to the backend; the test \<open>agent === 'maps_scout'\<close> then fails,
  the contract has no schema, and the answer is the bare text, not the grounded object.
\<close>

theorem array_agent_gets_bare_text:
  "ToPropertyKey decimal (agent (array_request ''maps_scout'' (JObj []))) =
     Inr (ascii ''maps_scout'') \<and>
   js_get (AI_AGENTS decimal) (ascii ''maps_scout'') = Own maps_scout \<and>
   tools (maps_scout :: nat agent_config) = Some [GoogleMaps] \<and>
   map req_tools (calls (trace (snd
     (ai_execute (js_get (AI_AGENTS decimal)) decimal (backend_text (ascii ''Acme Cafe'') None)
        JSON_parse (array_request ''maps_scout'' (JObj [])) (one_user_world ''hobby'' 0))))) =
     [Some [GoogleMaps]] \<and>
   fst (ai_execute (js_get (AI_AGENTS decimal)) decimal (backend_text (ascii ''Acme Cafe'') None)
          JSON_parse (array_request ''maps_scout'' (JObj [])) (one_user_world ''hobby'' 0)) =
     Response 200 (data_body (JStr (ascii ''Acme Cafe'')))"
  by (simp add: route_defs example_defs prompt_defs maps_scout_def text_value_def
      generate_request_def calls_def)

section \<open>Structured output\<close>



section \<open>Agent names\<close>

text \<open>
  C7, at two requests that differ only in how they name the agent, \<open>"maps_scout"\<close> and
  \<open>["maps_scout"]\<close>. Both are looked up under the key \<open>maps_scout\<close>, so the table gives the
  same contract for both; the test on the name outside the table,
  \<open>agent === 'maps_scout' || agent === 'seo_audit'\<close>, holds of the first only, and the same
  answer of the backend comes back as the grounded object for one and as bare text for the
  other.
\<close>

theorem same_contract_two_answers:
  "ToPropertyKey decimal (agent (request ''maps_scout'' (JObj []))) =
     ToPropertyKey decimal (agent (array_request ''maps_scout'' (JObj []))) \<and>
   user_id (request ''maps_scout'' (JObj [])) = user_id (array_request ''maps_scout'' (JObj [])) \<and>
   payload (request ''maps_scout'' (JObj [])) = payload (array_request ''maps_scout'' (JObj [])) \<and>
   fst (ai_execute (js_get (AI_AGENTS decimal)) decimal (backend_text (ascii ''Acme Cafe'') None)
          JSON_parse (request ''maps_scout'' (JObj [])) (one_user_world ''hobby'' 0)) =
     Response 200 (data_body (JObj
       [(ascii ''text'', JStr (ascii ''Acme Cafe'')), (ascii ''mapChunks'', JArr [])])) \<and>
   fst (ai_execute (js_get (AI_AGENTS decimal)) decimal (backend_text (ascii ''Acme Cafe'') None)
          JSON_parse (array_request ''maps_scout'' (JObj [])) (one_user_world ''hobby'' 0)) =
     Response 200 (data_body (JStr (ascii ''Acme Cafe'')))"
  by (simp add: route_defs example_defs prompt_defs maps_scout_def text_value_def)

section \<open>Sanitization of the prompt\<close>

text \<open>
  C5, at a \<open>chat_reply\<close> payload. \<open>productName\<close> goes through \<open>cleanInput\<close>: its control
  character U+007F is removed, and a name of 6000 units is cut to 5000. The messages of
  \<open>history\<close> go through \<open>JSON.stringify\<close> only: the same control character and the same
  6000 units reach the prompt whole, and the prompt is not the one the sanitized payload
  gives.
\<close>

theorem chat_history_not_sanitized:
  \<open>prompt (chat_reply decimal) (chat_payload ([0x7F] @ ascii ''Meti'') ([0x7F] @ ascii ''hi'')) =
     Inr (ascii ''Roleplay as CEO. Product: Meti. History: [{"role":"user","text":"'' @ [0x7F] @
          ascii ''hi"}]. Reply short.'') \<and>
   prompt (chat_reply decimal)
       (sanitize (chat_payload ([0x7F] @ ascii ''Meti'') ([0x7F] @ ascii ''hi''))) =
     Inr (ascii ''Roleplay as CEO. Product: Meti. History: [{"role":"user","text":"hi"}]. Reply short.'') \<and>
   prompt (chat_reply decimal) (chat_payload (replicate 6000 0x61) (replicate 6000 0x61)) =
     Inr (ascii ''Roleplay as CEO. Product: '' @ replicate 5000 0x61 @
          ascii ''. History: [{"role":"user","text":"'' @ replicate 6000 0x61 @
          ascii ''"}]. Reply short.'')\<close>
proof -
  have c: "cleanInput (JStr (replicate 6000 0x61) :: nat jsval) = replicate 5000 0x61"
    by (simp add: slice0_def strip_control_def is_control_def)
  have a: \<open>prompt (chat_reply decimal) (chat_payload ([0x7F] @ ascii ''Meti'') ([0x7F] @ ascii ''hi'')) =
     Inr (ascii ''Roleplay as CEO. Product: Meti. History: [{"role":"user","text":"'' @ [0x7F] @
          ascii ''hi"}]. Reply short.'')\<close>
    apply (simp add: chat_reply_def chat_payload_def prompt_defs ascii_eq_iff
        del: cleanInput.simps)
    apply (simp add: ascii_def slice0_def strip_control_def is_control_def QuoteJSONString_def
        escape_unit_def is_lead_def is_trail_def)
    done
  have s: \<open>prompt (chat_reply decimal)
       (sanitize (chat_payload ([0x7F] @ ascii ''Meti'') ([0x7F] @ ascii ''hi''))) =
     Inr (ascii ''Roleplay as CEO. Product: Meti. History: [{"role":"user","text":"hi"}]. Reply short.'')\<close>
    apply (simp add: chat_reply_def chat_payload_def prompt_defs ascii_eq_iff
        del: cleanInput.simps)
    apply (simp add: ascii_def slice0_def strip_control_def is_control_def QuoteJSONString_def
        escape_unit_def is_lead_def is_trail_def)
    done
  have b: \<open>prompt (chat_reply decimal) (chat_payload (replicate 6000 0x61) (replicate 6000 0x61)) =
     Inr (ascii ''Roleplay as CEO. Product: '' @ replicate 5000 0x61 @
          ascii ''. History: [{"role":"user","text":"'' @ replicate 6000 0x61 @
          ascii ''"}]. Reply short.'')\<close>
    apply (simp add: chat_reply_def chat_payload_def prompt_defs ascii_eq_iff
        c quote_units_plain QuoteJSONString_def del: cleanInput.simps)
    apply (simp add: ascii_def escape_unit_def is_lead_def is_trail_def slice0_def
        strip_control_def is_control_def)
    done
  from a s b show ?thesis by simp
qed

end
